theory Spec2Isabelle
  imports Complex_Main "HOL-Library.Word"
begin

unbundle bit_operations_syntax

section \<open>Python values reaching the service\<close>

text \<open>
  A Python \<open>float\<close> is an IEEE 754 binary64 value; it is modelled by its 64-bit pattern:
  bit 63 is the sign, bits 62..52 the biased exponent, bits 51..0 the fraction.  The
  exponent field 2047 encodes the infinities (fraction 0) and the NaNs (fraction not 0).
\<close>

type_synonym float64 = "64 word"

definition sign_bit :: "float64 \<Rightarrow> bool" where
  "sign_bit w = bit w 63"

definition biased_exponent :: "float64 \<Rightarrow> nat" where
  "biased_exponent w = unat (take_bit 11 (drop_bit 52 w))"

definition fraction :: "float64 \<Rightarrow> nat" where
  "fraction w = unat (take_bit 52 w)"

definition isfinite :: "float64 \<Rightarrow> bool" where
  "isfinite w = (biased_exponent w \<noteq> 2047)"

definition isnan :: "float64 \<Rightarrow> bool" where
  "isnan w = (biased_exponent w = 2047 \<and> fraction w \<noteq> 0)"

definition isinf :: "float64 \<Rightarrow> bool" where
  "isinf w = (biased_exponent w = 2047 \<and> fraction w = 0)"

text \<open>
  The significand and the power of two of a finite double: its magnitude is
  \<open>significand w * 2 ^ (unbiased w - 1075)\<close>, where the exponent field 0 (zero and the
  subnormal numbers) counts as 1 and has no implicit leading bit.
\<close>

definition significand :: "float64 \<Rightarrow> nat" where
  "significand w = (if biased_exponent w = 0 then fraction w else 2 ^ 52 + fraction w)"

definition unbiased :: "float64 \<Rightarrow> nat" where
  "unbiased w = (if biased_exponent w = 0 then 1 else biased_exponent w)"

definition float_value :: "float64 \<Rightarrow> rat" where
  "float_value w =
     (let a = (if 1075 \<le> unbiased w
               then of_nat (significand w) * 2 ^ (unbiased w - 1075)
               else of_nat (significand w) / 2 ^ (1075 - unbiased w))
      in if sign_bit w then - a else a)"

text \<open>\<open>int(x)\<close> of a finite float \<open>x\<close>: the integer part, rounding toward zero.\<close>

definition float_trunc :: "float64 \<Rightarrow> int" where
  "float_trunc w =
     (let a = (if 1075 \<le> unbiased w
               then significand w * 2 ^ (unbiased w - 1075)
               else significand w div 2 ^ (1075 - unbiased w))
      in if sign_bit w then - int a else int a)"

text \<open>
  The values the provider hands over: \<open>None\<close>, an \<open>int\<close> (unbounded), a \<open>float\<close>,
  or a \<open>str\<close>.
\<close>

datatype pyvalue = PyNone | PyInt int | PyFloat float64 | PyStr string

datatype error =
    OverflowError
  | TypeError
  | ValueError
  | ValidationError
  | IntegrityError
  | ProviderError

section \<open>The value sanitizer\<close>

text \<open>
  \<open>math.isfinite(value)\<close> converts its argument to a C double first.  An \<open>int\<close> is
  rounded to the nearest double (ties to even); when the rounded magnitude reaches
  \<open>2 ^ 1024\<close>, that is from \<open>2 ^ 1024 - 2 ^ 970\<close> on, the conversion raises
  \<open>OverflowError\<close>.  A \<open>str\<close> or \<open>None\<close> raises \<open>TypeError\<close>.
\<close>

definition int_too_large_for_float :: "int \<Rightarrow> bool" where
  "int_too_large_for_float n = (2 ^ 1024 - 2 ^ 970 \<le> \<bar>n\<bar>)"

fun math_isfinite :: "pyvalue \<Rightarrow> error + bool" where
  "math_isfinite (PyFloat w) = Inr (isfinite w)"
| "math_isfinite (PyInt n) = (if int_too_large_for_float n then Inl OverflowError else Inr True)"
| "math_isfinite (PyStr s) = Inl TypeError"
| "math_isfinite PyNone = Inl TypeError"

text \<open>
  \<open>int(value)\<close>.  On a NaN it raises \<open>ValueError\<close>, on an infinity \<open>OverflowError\<close>,
  on \<open>None\<close> \<open>TypeError\<close>.  Parsing of a \<open>str\<close> is not modelled (the equation gives
  the outcome for a text that is not a number): no \<open>str\<close> reaches \<open>int\<close> in this
  program, \<open>math.isfinite\<close> has raised before.
\<close>

fun py_int :: "pyvalue \<Rightarrow> error + int" where
  "py_int (PyInt n) = Inr n"
| "py_int (PyFloat w) =
     (if isnan w then Inl ValueError
      else if isinf w then Inl OverflowError
      else Inr (float_trunc w))"
| "py_int (PyStr s) = Inl ValueError"
| "py_int PyNone = Inl TypeError"

text \<open>
  \<open>_clean_financial_value\<close>: the test \<open>value is None or not math.isfinite(value)\<close>
  stands outside the \<open>try\<close>, so what \<open>math.isfinite\<close> raises leaves the function;
  the \<open>try\<close> around \<open>int(value)\<close> turns \<open>ValueError\<close> and \<open>TypeError\<close> into
  \<open>None\<close>.
\<close>

definition clean_financial_value :: "pyvalue \<Rightarrow> error + int option" where
  "clean_financial_value v =
     (if v = PyNone then Inr None
      else case math_isfinite v of
        Inl e \<Rightarrow> Inl e
      | Inr fin \<Rightarrow>
          if \<not> fin then Inr None
          else (case py_int v of
                  Inr n \<Rightarrow> Inr (Some n)
                | Inl e \<Rightarrow> if e = ValueError \<or> e = TypeError then Inr None else Inl e))"

text \<open>The sanitizer's result as the Python value it is: \<open>None\<close> or an \<open>int\<close>.\<close>

fun cleaned_value :: "int option \<Rightarrow> pyvalue" where
  "cleaned_value None = PyNone"
| "cleaned_value (Some n) = PyInt n"

text \<open>\<open>_clean_financial_value(_clean_financial_value(v))\<close>: an exception of the inner
  call leaves the whole expression.\<close>

definition clean_twice :: "pyvalue \<Rightarrow> error + int option" where
  "clean_twice v =
     (case clean_financial_value v of
        Inl e \<Rightarrow> Inl e
      | Inr r \<Rightarrow> clean_financial_value (cleaned_value r))"

section \<open>The store\<close>

text \<open>
  A calendar date is its proleptic Gregorian ordinal (\<open>date.toordinal()\<close>); the order
  of dates is the order of the ordinals.
\<close>

type_synonym date = nat

text \<open>
  The pydantic schemas \<open>StockBase\<close>, \<open>DailyStockPriceBase\<close> and
  \<open>FinancialStatementBase\<close> carry the columns; the rows of the tables add the
  surrogate \<open>id\<close> and the foreign key \<open>stock_id\<close> (suffixed here by the table, as
  record fields share one name space).  The timestamps \<open>created_at\<close> and
  \<open>updated_at\<close> are filled by the database clock and are left out.  The store is an
  ideal one: a table is the list of its rows in insertion order, and a commit fails
  only on a constraint the models declare (\<open>unique\<close> and \<open>nullable=False\<close>).
\<close>

record stock_base =
  code :: string
  name :: "string option"
  industry :: "string option"
  sector :: "string option"
  country :: "string option"
  exchange :: "string option"
  currency :: "string option"
  market_cap :: "int option"
  website :: "string option"

record stock = stock_base +
  id_s :: nat

record daily_stock_price_base =
  date :: date
  open_price :: "float64 option"
  high :: "float64 option"
  low :: "float64 option"
  close :: "float64 option"
  adj_close :: "float64 option"
  volume :: "int option"
  dividends :: "float64 option"
  stock_splits :: "float64 option"

record daily_stock_price = daily_stock_price_base +
  id_p :: nat
  stock_id_p :: nat

record financial_statement_base =
  period_type :: string
  period_end_date :: date
  total_revenue :: "int option"
  cost_of_revenue :: "int option"
  gross_profit :: "int option"
  operating_income :: "int option"
  net_income :: "int option"
  total_assets :: "int option"
  total_liabilities :: "int option"
  shareholder_equity :: "int option"
  free_cash_flow :: "int option"

record financial_statement = financial_statement_base +
  id_f :: nat
  stock_id_f :: nat

record db =
  stocks :: "stock list"
  daily_stock_prices :: "daily_stock_price list"
  financial_statements :: "financial_statement list"

text \<open>The next value of an autoincremented primary key: no row is ever deleted.\<close>

definition next_id :: "nat list \<Rightarrow> nat" where
  "next_id ids = Suc (fold max ids 0)"

section \<open>The provider\<close>

text \<open>
  \<open>yf.Ticker(symbol)\<close>: the metadata dictionary \<open>info\<close>, the price history frame
  and the two statement frames.  Each access may raise.  The text entries of \<open>info\<close>
  are strings or null, \<open>marketCap\<close> is any value; for \<open>symbol\<close>, \<open>longName\<close> and
  \<open>shortName\<close> the outer \<open>None\<close> says that the key is absent, the code tells an
  absent key from a null entry there.  An \<open>info\<close> that is \<open>None\<close> or \<open>{}\<close> is
  the \<open>None\<close> of \<open>ticker_info option\<close>.
\<close>

record ticker_info =
  info_symbol :: "string option"
  info_longName :: "string option option"
  info_shortName :: "string option option"
  info_industry :: "string option"
  info_sector :: "string option"
  info_country :: "string option"
  info_exchange :: "string option"
  info_currency :: "string option"
  info_marketCap :: pyvalue
  info_website :: "string option"

text \<open>
  A row of \<open>hist.iterrows()\<close>: the index and the columns.  The price columns are
  float64 columns; \<open>None\<close> says that the frame has no such column, which is when
  \<open>row.get\<close> answers its default.
\<close>

record history_row =
  index_date :: date
  Open :: "float64 option"
  High :: "float64 option"
  Low :: "float64 option"
  Close :: "float64 option"
  Adj_Close :: "float64 option"
  Volume :: pyvalue
  Dividends :: "float64 option"
  Stock_Splits :: "float64 option"

text \<open>
  A statement frame, transposed: what \<open>financials_df.T.iterrows()\<close> yields, the period
  end date and the cells of that period by metric label.
\<close>

type_synonym series = "(string \<times> pyvalue) list"

type_synonym frame = "(date \<times> series) list"

definition row_get :: "series \<Rightarrow> string \<Rightarrow> pyvalue" where
  "row_get row k = (case map_of row k of None \<Rightarrow> PyNone | Some v \<Rightarrow> v)"

text \<open>\<open>DataFrame.empty\<close>: no period, or no metric.\<close>

fun df_empty :: "frame \<Rightarrow> bool" where
  "df_empty [] = True"
| "df_empty ((d, row) # rest) = (row = [])"

record ticker =
  info :: "error + ticker_info option"
  history :: "error + history_row list"
  financials :: "error + frame"
  quarterly_financials :: "error + frame"

section \<open>StockService\<close>

definition get_stock_by_code :: "db \<Rightarrow> string \<Rightarrow> stock option" where
  "get_stock_by_code d c = find (\<lambda>s. code s = c) (stocks d)"

text \<open>
  \<open>StockCreate(**stock_data_dict)\<close>: \<open>name: str\<close> rejects a null name.
\<close>

definition StockCreate :: "stock_base \<Rightarrow> error + stock_base" where
  "StockCreate sd = (if name sd = None then Inl ValidationError else Inr sd)"

text \<open>
  \<open>create_stock\<close>: the insert fails on the \<open>unique\<close> constraint of \<open>code\<close> and on
  the \<open>nullable=False\<close> of \<open>name\<close>.
\<close>

definition create_stock :: "db \<Rightarrow> stock_base \<Rightarrow> error + stock \<times> db" where
  "create_stock d sd =
     (if name sd = None \<or> find (\<lambda>s. code s = code sd) (stocks d) \<noteq> None
      then Inl IntegrityError
      else
        let db_stock = \<lparr>code = code sd, name = name sd, industry = industry sd,
               sector = sector sd, country = country sd, exchange = exchange sd,
               currency = currency sd, market_cap = market_cap sd, website = website sd,
               id_s = next_id (map id_s (stocks d))\<rparr>
        in Inr (db_stock, d\<lparr>stocks := stocks d @ [db_stock]\<rparr>))"

definition insert_daily_price :: "db \<Rightarrow> nat \<Rightarrow> daily_stock_price_base \<Rightarrow> db" where
  "insert_daily_price d stock_id p =
     d\<lparr>daily_stock_prices := daily_stock_prices d @
        [\<lparr>date = date p, open_price = open_price p, high = high p, low = low p,
          close = close p, adj_close = adj_close p, volume = volume p,
          dividends = dividends p, stock_splits = stock_splits p,
          id_p = next_id (map id_p (daily_stock_prices d)), stock_id_p = stock_id\<rparr>]\<rparr>"

fun add_daily_prices :: "db \<Rightarrow> nat \<Rightarrow> daily_stock_price_base list \<Rightarrow> db" where
  "add_daily_prices d stock_id [] = d"
| "add_daily_prices d stock_id (p # prices) =
     add_daily_prices (insert_daily_price d stock_id p) stock_id prices"

definition get_daily_prices ::
  "db \<Rightarrow> nat \<Rightarrow> date option \<Rightarrow> date option \<Rightarrow> daily_stock_price list" where
  "get_daily_prices d stock_id start_date end_date =
     sort_key date
       (filter (\<lambda>p. stock_id_p p = stock_id
                  \<and> (case start_date of None \<Rightarrow> True | Some a \<Rightarrow> a \<le> date p)
                  \<and> (case end_date of None \<Rightarrow> True | Some b \<Rightarrow> date p \<le> b))
          (daily_stock_prices d))"

definition create_financial_statement ::
  "db \<Rightarrow> nat \<Rightarrow> financial_statement_base \<Rightarrow> financial_statement \<times> db" where
  "create_financial_statement d stock_id st =
     (let db_statement = \<lparr>period_type = period_type st, period_end_date = period_end_date st,
            total_revenue = total_revenue st, cost_of_revenue = cost_of_revenue st,
            gross_profit = gross_profit st, operating_income = operating_income st,
            net_income = net_income st, total_assets = total_assets st,
            total_liabilities = total_liabilities st,
            shareholder_equity = shareholder_equity st, free_cash_flow = free_cash_flow st,
            id_f = next_id (map id_f (financial_statements d)), stock_id_f = stock_id\<rparr>
      in (db_statement, d\<lparr>financial_statements := financial_statements d @ [db_statement]\<rparr>))"

text \<open>
  \<open>get_financial_statements\<close>: \<open>if period_type:\<close> skips the filter for \<open>None\<close> and
  for the empty string; a date is always true.  Newest period first.
\<close>

definition get_financial_statements ::
  "db \<Rightarrow> nat \<Rightarrow> string option \<Rightarrow> date option \<Rightarrow> financial_statement list" where
  "get_financial_statements d stock_id ptype pdate =
     rev (sort_key period_end_date
       (filter (\<lambda>f. stock_id_f f = stock_id
                  \<and> (case ptype of None \<Rightarrow> True
                      | Some t \<Rightarrow> if t = [] then True else period_type f = t)
                  \<and> (case pdate of None \<Rightarrow> True | Some e \<Rightarrow> period_end_date f = e))
          (financial_statements d)))"

subsection \<open>The statement merge\<close>

definition bind_err :: "error + 'a \<Rightarrow> ('a \<Rightarrow> error + 'b) \<Rightarrow> error + 'b" where
  "bind_err r f = (case r of Inl e \<Rightarrow> Inl e | Inr a \<Rightarrow> f a)"

text \<open>
  The \<open>FinancialStatementCreate\<close> of one fetched row: the keyword arguments are
  evaluated in the order written, the first sanitizer that raises ends the call.
\<close>

definition statement_data :: "string \<Rightarrow> date \<Rightarrow> series \<Rightarrow> error + financial_statement_base" where
  "statement_data ptype pdate row =
     bind_err (clean_financial_value (row_get row ''Total Revenue'')) (\<lambda>v1.
     bind_err (clean_financial_value (row_get row ''Cost Of Revenue'')) (\<lambda>v2.
     bind_err (clean_financial_value (row_get row ''Gross Profit'')) (\<lambda>v3.
     bind_err (clean_financial_value (row_get row ''Operating Income'')) (\<lambda>v4.
     bind_err (clean_financial_value (row_get row ''Net Income'')) (\<lambda>v5.
     bind_err (clean_financial_value (row_get row ''Total Assets'')) (\<lambda>v6.
     bind_err (clean_financial_value (row_get row ''Total Liabilities'')) (\<lambda>v7.
     bind_err (clean_financial_value (row_get row ''Stockholders Equity'')) (\<lambda>v8.
     bind_err (clean_financial_value (row_get row ''Free Cash Flow'')) (\<lambda>v9.
       Inr \<lparr>period_type = ptype, period_end_date = pdate,
            total_revenue = v1, cost_of_revenue = v2, gross_profit = v3,
            operating_income = v4, net_income = v5, total_assets = v6,
            total_liabilities = v7, shareholder_equity = v8,
            free_cash_flow = v9\<rparr>)))))))))"

text \<open>The body of the loop of \<open>_save_financials_from_df\<close>, for one fetched row.\<close>

definition save_financials_row :: "db \<Rightarrow> nat \<Rightarrow> string \<Rightarrow> date \<times> series \<Rightarrow> error + db" where
  "save_financials_row d stock_id ptype r =
     (if get_financial_statements d stock_id (Some ptype) (Some (fst r)) \<noteq> [] then Inr d
      else bind_err (statement_data ptype (fst r) (snd r))
             (\<lambda>st. Inr (snd (create_financial_statement d stock_id st))))"

text \<open>
  The loop.  Every insert is its own commit, so the rows written before an exception
  stay; the result is the exception, if any, and the store.
\<close>

fun save_financials_rows :: "db \<Rightarrow> nat \<Rightarrow> string \<Rightarrow> frame \<Rightarrow> (error + unit) \<times> db" where
  "save_financials_rows d stock_id ptype [] = (Inr (), d)"
| "save_financials_rows d stock_id ptype (r # rest) =
     (case save_financials_row d stock_id ptype r of
        Inl e \<Rightarrow> (Inl e, d)
      | Inr d' \<Rightarrow> save_financials_rows d' stock_id ptype rest)"

definition save_financials_from_df :: "db \<Rightarrow> nat \<Rightarrow> frame \<Rightarrow> string \<Rightarrow> (error + unit) \<times> db" where
  "save_financials_from_df d stock_id financials_df ptype =
     (if df_empty financials_df then (Inr (), d)
      else save_financials_rows d stock_id ptype financials_df)"

subsection \<open>The metadata upsert\<close>

text \<open>
  \<open>stock_data_dict\<close>: \<open>info.get("longName", info.get("shortName", ticker_symbol))\<close>
  falls back only when the key is absent.
\<close>

definition stock_data_dict :: "string \<Rightarrow> ticker_info \<Rightarrow> error + stock_base" where
  "stock_data_dict ticker_symbol i =
     bind_err (clean_financial_value (info_marketCap i)) (\<lambda>cap.
       Inr \<lparr>code = ticker_symbol,
            name = (case info_longName i of
                      Some v \<Rightarrow> v
                    | None \<Rightarrow> (case info_shortName i of
                                 Some v \<Rightarrow> v
                               | None \<Rightarrow> Some ticker_symbol)),
            industry = info_industry i, sector = info_sector i, country = info_country i,
            exchange = info_exchange i, currency = info_currency i,
            market_cap = cap, website = info_website i\<rparr>)"

text \<open>
  Lines 180 and 194 to 201 of \<open>fetch_and_save_yfinance_data\<close>: the row found by code
  has every key of the dictionary set and is committed (the commit fails on a null
  name); without such a row the dictionary is validated and inserted.
\<close>

definition upsert_stock :: "db \<Rightarrow> stock_base \<Rightarrow> error + stock \<times> db" where
  "upsert_stock d sd =
     (case get_stock_by_code d (code sd) of
        Some s \<Rightarrow>
          (let s' = s\<lparr>code := code sd, name := name sd, industry := industry sd,
                     sector := sector sd, country := country sd, exchange := exchange sd,
                     currency := currency sd, market_cap := market_cap sd,
                     website := website sd\<rparr>
           in if name s' = None then Inl IntegrityError
              else Inr (s', d\<lparr>stocks := map (\<lambda>r. if id_s r = id_s s then s' else r) (stocks d)\<rparr>))
      | None \<Rightarrow> bind_err (StockCreate sd) (create_stock d))"

subsection \<open>The price merge\<close>

text \<open>The newest persisted price of the stock: \<open>order_by(date.desc()).first()\<close>.\<close>

definition latest_price :: "db \<Rightarrow> nat \<Rightarrow> daily_stock_price option" where
  "latest_price d stock_id =
     (case rev (sort_key date (filter (\<lambda>p. stock_id_p p = stock_id) (daily_stock_prices d))) of
        [] \<Rightarrow> None
      | p # rest \<Rightarrow> Some p)"

text \<open>The \<open>DailyStockPriceCreate\<close> of one fetched row; \<open>0.0\<close> is the word 0.\<close>

definition DailyStockPriceCreate :: "history_row \<Rightarrow> error + daily_stock_price_base" where
  "DailyStockPriceCreate row =
     bind_err (clean_financial_value (Volume row)) (\<lambda>vol.
       Inr \<lparr>date = index_date row, open_price = Open row, high = High row, low = Low row,
            close = Close row, adj_close = Adj_Close row, volume = vol,
            dividends = (case Dividends row of None \<Rightarrow> Some 0 | Some x \<Rightarrow> Some x),
            stock_splits = (case Stock_Splits row of None \<Rightarrow> Some 0 | Some x \<Rightarrow> Some x)\<rparr>)"

text \<open>The loop that fills \<open>prices_to_add\<close>: a row at or before the latest date is
  skipped before anything of it is read.\<close>

fun prices_to_add :: "daily_stock_price option \<Rightarrow> history_row list \<Rightarrow> error + daily_stock_price_base list" where
  "prices_to_add latest [] = Inr []"
| "prices_to_add latest (row # rest) =
     (if (case latest of None \<Rightarrow> False | Some lp \<Rightarrow> index_date row \<le> date lp)
      then prices_to_add latest rest
      else bind_err (DailyStockPriceCreate row) (\<lambda>p.
           bind_err (prices_to_add latest rest) (\<lambda>ps. Inr (p # ps))))"

text \<open>
  Lines 207 to 236: nothing happens on an empty history; otherwise the new rows are
  written in one batch and their number is printed (\<open>Saved n new daily price
  records.\<close>), which is the second component.
\<close>

definition merge_prices :: "db \<Rightarrow> nat \<Rightarrow> history_row list \<Rightarrow> error + db \<times> nat option" where
  "merge_prices d stock_id hist =
     (if hist = [] then Inr (d, None)
      else bind_err (prices_to_add (latest_price d stock_id) hist) (\<lambda>ps.
             Inr (if ps \<noteq> [] then add_daily_prices d stock_id ps else d, Some (length ps))))"

subsection \<open>Ingestion of one symbol\<close>

text \<open>
  \<open>fetch_and_save_yfinance_data\<close>.  The provider \<open>yf\<close> is \<open>yf.Ticker\<close>.  The result
  is what the call returns or raises, and the store it leaves: the metadata, the
  price batch and each statement are commits of their own.  The test \<open>if not stock\<close>
  after the upsert has no branch here: the stock is a row object then, which is true.
\<close>

definition fetch_and_save_yfinance_data ::
  "(string \<Rightarrow> ticker) \<Rightarrow> db \<Rightarrow> string \<Rightarrow> (error + stock option) \<times> db" where
  "fetch_and_save_yfinance_data yf d ticker_symbol =
     (let t = yf ticker_symbol in
      case info t of
        Inl e \<Rightarrow> (Inl e, d)
      | Inr None \<Rightarrow> (Inr None, d)
      | Inr (Some i) \<Rightarrow>
          if info_symbol i = None then (Inr None, d)
          else
            (case bind_err (stock_data_dict ticker_symbol i) (upsert_stock d) of
               Inl e \<Rightarrow> (Inl e, d)
             | Inr (s, d1) \<Rightarrow>
                 (case bind_err (history t) (merge_prices d1 (id_s s)) of
                    Inl e \<Rightarrow> (Inl e, d1)
                  | Inr (d2, n) \<Rightarrow>
                      (case financials t of
                         Inl e \<Rightarrow> (Inl e, d2)
                       | Inr annual \<Rightarrow>
                           (case save_financials_from_df d2 (id_s s) annual ''annual'' of
                              (Inl e, d3) \<Rightarrow> (Inl e, d3)
                            | (Inr u, d3) \<Rightarrow>
                                (case quarterly_financials t of
                                   Inl e \<Rightarrow> (Inl e, d3)
                                 | Inr quarterly \<Rightarrow>
                                     (case save_financials_from_df d3 (id_s s) quarterly ''quarterly'' of
                                        (Inl e, d4) \<Rightarrow> (Inl e, d4)
                                      | (Inr u', d4) \<Rightarrow> (Inr (Some s), d4))))))))"

subsection \<open>The bulk job\<close>






section \<open>The router\<close>

datatype http_error = HTTPException nat

text \<open>\<open>POST /stocks/{code}/financials/\<close>: 404 without the stock, else the insert.\<close>

definition create_financial_statement_for_stock ::
  "db \<Rightarrow> string \<Rightarrow> financial_statement_base \<Rightarrow> (http_error + financial_statement) \<times> db" where
  "create_financial_statement_for_stock d c statement =
     (case get_stock_by_code d c of
        None \<Rightarrow> (Inl (HTTPException 404), d)
      | Some s \<Rightarrow>
          (case create_financial_statement d (id_s s) statement of
             (st, d') \<Rightarrow> (Inr st, d')))"

section \<open>The key invariants of the data model\<close>

definition price_keys_unique :: "db \<Rightarrow> bool" where
  "price_keys_unique d = distinct (map (\<lambda>p. (stock_id_p p, date p)) (daily_stock_prices d))"

definition statement_keys_unique :: "db \<Rightarrow> bool" where
  "statement_keys_unique d =
     distinct (map (\<lambda>f. (stock_id_f f, period_type f, period_end_date f)) (financial_statements d))"


section \<open>The vocabulary of the specification\<close>

text \<open>
  These follow the words of the specification, to be compared with the code: the dates
  of the persisted prices of a security, the latest of them (none for a security
  without price history), and the entries of a fetched series dated strictly after
  that date (every entry when there is none).
\<close>

definition persisted_dates :: "db \<Rightarrow> nat \<Rightarrow> date list" where
  "persisted_dates d stock_id =
     map date (filter (\<lambda>p. stock_id_p p = stock_id) (daily_stock_prices d))"

definition latest_persisted_date :: "db \<Rightarrow> nat \<Rightarrow> date option" where
  "latest_persisted_date d stock_id =
     (if persisted_dates d stock_id = [] then None
      else Some (Max (set (persisted_dates d stock_id))))"

definition newer_than :: "date option \<Rightarrow> history_row \<Rightarrow> bool" where
  "newer_than latest row = (case latest of None \<Rightarrow> True | Some day \<Rightarrow> day < index_date row)"

text \<open>
  The foreign keys of the models (\<open>ForeignKey("stocks.id")\<close>): every price and every
  statement belongs to a stock of the store.
\<close>

definition foreign_keys_ok :: "db \<Rightarrow> bool" where
  "foreign_keys_ok d =
     (list_all (\<lambda>p. stock_id_p p \<in> set (map id_s (stocks d))) (daily_stock_prices d)
      \<and> list_all (\<lambda>f. stock_id_f f \<in> set (map id_s (stocks d))) (financial_statements d))"

text \<open>The metric labels that \<open>_save_financials_from_df\<close> reads of a row.\<close>

definition metric_labels :: "string list" where
  "metric_labels =
     [''Total Revenue'', ''Cost Of Revenue'', ''Gross Profit'', ''Operating Income'',
      ''Net Income'', ''Total Assets'', ''Total Liabilities'', ''Stockholders Equity'',
      ''Free Cash Flow'']"

section \<open>Example data\<close>

text \<open>
  The data of the test suite (\<open>mock_yfinance\<close> in \<open>tests/test_main.py\<close>): the symbol
  \<open>TEST\<close> with one price row of 2023-01-01 (ordinal 738521), one annual statement
  of 2023-12-31 (738885) and one quarterly statement of 2024-03-31 (738976).  The
  floats 99.0, 100.0, 101.0 and 102.0 are the words \<open>0x4058C00000000000\<close>,
  \<open>0x4059000000000000\<close>, \<open>0x4059400000000000\<close> and \<open>0x4059800000000000\<close>.
\<close>

definition empty_db :: db where
  "empty_db = \<lparr>stocks = [], daily_stock_prices = [], financial_statements = []\<rparr>"

definition mock_info :: ticker_info where
  "mock_info =
     \<lparr>info_symbol = Some ''TEST'', info_longName = Some (Some ''Test Inc''),
      info_shortName = None, info_industry = Some ''Technology'',
      info_sector = Some ''Software'', info_country = Some ''USA'',
      info_exchange = Some ''NASDAQ'', info_currency = Some ''USD'',
      info_marketCap = PyInt 1000000000, info_website = Some ''https://example.com''\<rparr>"

definition mock_history_row :: history_row where
  "mock_history_row =
     \<lparr>index_date = 738521, Open = Some 0x4059000000000000, High = Some 0x4059800000000000,
      Low = Some 0x4058C00000000000, Close = Some 0x4059400000000000,
      Adj_Close = Some 0x4059400000000000, Volume = PyInt 100000,
      Dividends = Some 0, Stock_Splits = Some 0\<rparr>"

definition mock_financials :: frame where
  "mock_financials =
     [(738885, [(''Total Revenue'', PyInt 10000), (''Net Income'', PyInt 2000),
                (''Total Assets'', PyInt 30000), (''Stockholders Equity'', PyInt 15000),
                (''Total Liabilities'', PyInt 15000), (''Cost Of Revenue'', PyInt 4000),
                (''Gross Profit'', PyInt 6000), (''Operating Income'', PyInt 3000),
                (''Free Cash Flow'', PyInt 1000)])]"

definition mock_quarterly_financials :: frame where
  "mock_quarterly_financials =
     [(738976, [(''Total Revenue'', PyInt 2500), (''Net Income'', PyInt 500)])]"

definition mock_ticker :: ticker where
  "mock_ticker =
     \<lparr>info = Inr (Some mock_info), history = Inr [mock_history_row],
      financials = Inr mock_financials,
      quarterly_financials = Inr mock_quarterly_financials\<rparr>"

text \<open>A symbol the provider does not know: an \<open>info\<close> without the key \<open>symbol\<close>.\<close>

definition unknown_ticker :: ticker where
  "unknown_ticker =
     \<lparr>info = Inr None, history = Inr [], financials = Inr [],
      quarterly_financials = Inr []\<rparr>"

definition mock_yf :: "string \<Rightarrow> ticker" where
  "mock_yf ticker_symbol = (if ticker_symbol = ''TEST'' then mock_ticker else unknown_ticker)"

text \<open>The store after the ingestion of \<open>TEST\<close> into the empty store.\<close>

definition test_stock :: stock where
  "test_stock =
     \<lparr>code = ''TEST'', name = Some ''Test Inc'', industry = Some ''Technology'',
      sector = Some ''Software'', country = Some ''USA'', exchange = Some ''NASDAQ'',
      currency = Some ''USD'', market_cap = Some 1000000000,
      website = Some ''https://example.com'', id_s = 1\<rparr>"

definition test_price :: daily_stock_price where
  "test_price =
     \<lparr>date = 738521, open_price = Some 0x4059000000000000, high = Some 0x4059800000000000,
      low = Some 0x4058C00000000000, close = Some 0x4059400000000000,
      adj_close = Some 0x4059400000000000, volume = Some 100000,
      dividends = Some 0, stock_splits = Some 0, id_p = 1, stock_id_p = 1\<rparr>"

definition test_annual :: financial_statement where
  "test_annual =
     \<lparr>period_type = ''annual'', period_end_date = 738885, total_revenue = Some 10000,
      cost_of_revenue = Some 4000, gross_profit = Some 6000, operating_income = Some 3000,
      net_income = Some 2000, total_assets = Some 30000, total_liabilities = Some 15000,
      shareholder_equity = Some 15000, free_cash_flow = Some 1000,
      id_f = 1, stock_id_f = 1\<rparr>"

definition test_quarterly :: financial_statement where
  "test_quarterly =
     \<lparr>period_type = ''quarterly'', period_end_date = 738976, total_revenue = Some 2500,
      cost_of_revenue = None, gross_profit = None, operating_income = None,
      net_income = Some 500, total_assets = None, total_liabilities = None,
      shareholder_equity = None, free_cash_flow = None,
      id_f = 2, stock_id_f = 1\<rparr>"

definition test_db :: db where
  "test_db =
     \<lparr>stocks = [test_stock], daily_stock_prices = [test_price],
      financial_statements = [test_annual, test_quarterly]\<rparr>"

text \<open>
  A later fetch of \<open>TEST\<close>: a row before the persisted day, a row on that day with
  another close (102.0 for the stored 101.0), and a row of the next day whose volume
  is the float 100000.0 (\<open>0x40F86A0000000000\<close>).
\<close>

definition later_history :: "history_row list" where
  "later_history =
     [mock_history_row\<lparr>index_date := 738520\<rparr>,
      mock_history_row\<lparr>Close := Some 0x4059800000000000\<rparr>,
      mock_history_row\<lparr>index_date := 738522, Volume := PyFloat 0x40F86A0000000000\<rparr>]"

definition later_price :: daily_stock_price where
  "later_price = test_price\<lparr>date := 738522, id_p := 2\<rparr>"

text \<open>
  The payload of \<open>test_create_and_get_financial_statement\<close>, and its stock \<open>FIN\<close>.
\<close>

definition fin_stock :: stock where
  "fin_stock =
     \<lparr>code = ''FIN'', name = Some ''Financial Corp'', industry = None, sector = None,
      country = None, exchange = None, currency = None, market_cap = None,
      website = None, id_s = 1\<rparr>"

definition fin_db :: db where
  "fin_db = \<lparr>stocks = [fin_stock], daily_stock_prices = [], financial_statements = []\<rparr>"

definition fs_payload :: financial_statement_base where
  "fs_payload =
     \<lparr>period_type = ''annual'', period_end_date = 738885, total_revenue = Some 500,
      cost_of_revenue = None, gross_profit = None, operating_income = None,
      net_income = Some 50, total_assets = None, total_liabilities = None,
      shareholder_equity = None, free_cash_flow = None\<rparr>"

text \<open>
  A second fetch of \<open>TEST\<close> with other metadata, and two fetched statement rows: a
  restated annual row of 2023-12-31, and an annual row dated like the stored
  quarterly statement whose revenue is a NaN (\<open>0x7FF8000000000000\<close>).
\<close>

definition second_fetch :: stock_base where
  "second_fetch =
     \<lparr>code = ''TEST'', name = Some ''Test Incorporated'', industry = None,
      sector = Some ''Software'', country = Some ''USA'', exchange = Some ''NYSE'',
      currency = Some ''USD'', market_cap = None, website = None\<rparr>"

definition second_stock :: stock where
  "second_stock =
     \<lparr>code = ''TEST'', name = Some ''Test Incorporated'', industry = None,
      sector = Some ''Software'', country = Some ''USA'', exchange = Some ''NYSE'',
      currency = Some ''USD'', market_cap = None, website = None, id_s = 1\<rparr>"




definition fin_statement :: "nat \<Rightarrow> financial_statement" where
  "fin_statement i =
     \<lparr>period_type = ''annual'', period_end_date = 738885, total_revenue = Some 500,
      cost_of_revenue = None, gross_profit = None, operating_income = None,
      net_income = Some 50, total_assets = None, total_liabilities = None,
      shareholder_equity = None, free_cash_flow = None, id_f = i, stock_id_f = 1\<rparr>"

section \<open>Facts about doubles and the sanitizer\<close>

lemma biased_exponent_less: "biased_exponent w < 2048"
proof -
  have "take_bit 11 (unat (drop_bit 52 w)) < (2::nat) ^ 11"
    by (rule take_bit_nat_less_exp)
  then show ?thesis
    by (simp add: biased_exponent_def unsigned_take_bit_eq)
qed

lemma fraction_less: "fraction w < 2 ^ 52"
proof -
  have "take_bit 52 (unat w) < (2::nat) ^ 52"
    by (rule take_bit_nat_less_exp)
  then show ?thesis
    by (simp add: fraction_def unsigned_take_bit_eq)
qed

lemma finite_not_nan_inf: "isfinite w \<longleftrightarrow> \<not> isnan w \<and> \<not> isinf w"
  by (auto simp: isfinite_def isnan_def isinf_def)

lemma significand_less: "significand w < 2 ^ 53"
  using fraction_less [of w] by (simp add: significand_def)

lemma unbiased_le: "isfinite w \<Longrightarrow> unbiased w \<le> 2046"
  using biased_exponent_less [of w] by (simp add: unbiased_def isfinite_def)

lemma float_magnitude_less:
  assumes "isfinite w"
  shows "(if 1075 \<le> unbiased w
               then significand w * 2 ^ (unbiased w - 1075)
               else significand w div 2 ^ (1075 - unbiased w)) < (2::nat) ^ 1024 - 2 ^ 970"
proof (cases "1075 \<le> unbiased w")
  case True
  have "unbiased w - 1075 \<le> 971" using unbiased_le [OF assms] by simp
  then have "(2::nat) ^ (unbiased w - 1075) \<le> 2 ^ 971"
    by (intro power_increasing) simp_all
  moreover have "significand w \<le> 2 ^ 53 - 1" using significand_less [of w] by simp
  ultimately have "significand w \<le> 2 ^ 53 - 1 \<and> (2::nat) ^ (unbiased w - 1075) \<le> 2 ^ 971" by simp
  then have "significand w * 2 ^ (unbiased w - 1075) \<le> (2 ^ 53 - 1) * (2::nat) ^ 971"
    by (intro mult_le_mono) simp_all
  also have "\<dots> < (2::nat) ^ 1024 - 2 ^ 970" by simp
  finally show ?thesis using True by simp
next
  case False
  have "significand w div 2 ^ (1075 - unbiased w) \<le> significand w" by (rule div_le_dividend)
  also have "\<dots> < 2 ^ 53" by (rule significand_less)
  also have "\<dots> < (2::nat) ^ 1024 - 2 ^ 970" by simp
  finally show ?thesis using False by simp
qed

lemma float_trunc_fits:
  assumes "isfinite w"
  shows "\<not> int_too_large_for_float (float_trunc w)"
proof -
  define a where "a = (if 1075 \<le> unbiased w
               then significand w * 2 ^ (unbiased w - 1075)
               else significand w div 2 ^ (1075 - unbiased w))"
  have a: "a < 2 ^ 1024 - 2 ^ 970"
    unfolding a_def by (rule float_magnitude_less [OF assms])
  have "\<bar>float_trunc w\<bar> = int a"
    by (simp add: float_trunc_def a_def Let_def)
  also have "\<dots> < int (2 ^ 1024 - 2 ^ 970)"
    using a by (simp only: of_nat_less_iff)
  also have "\<dots> = 2 ^ 1024 - 2 ^ 970"
    by simp
  finally show ?thesis
    by (simp add: int_too_large_for_float_def)
qed

lemma clean_float_finite:
  "isfinite w \<Longrightarrow> clean_financial_value (PyFloat w) = Inr (Some (float_trunc w))"
  by (simp add: clean_financial_value_def finite_not_nan_inf)

lemma clean_float_not_finite:
  "\<not> isfinite w \<Longrightarrow> clean_financial_value (PyFloat w) = Inr None"
  by (simp add: clean_financial_value_def)

lemma clean_int:
  "clean_financial_value (PyInt n) =
     (if int_too_large_for_float n then Inl OverflowError else Inr (Some n))"
  by (simp add: clean_financial_value_def)

lemma clean_none: "clean_financial_value PyNone = Inr None"
  by (simp add: clean_financial_value_def)

lemma clean_str: "clean_financial_value (PyStr s) = Inl TypeError"
  by (simp add: clean_financial_value_def)

lemma clean_result_fits:
  "clean_financial_value v = Inr (Some n) \<Longrightarrow> \<not> int_too_large_for_float n"
  by (cases v) (auto simp: clean_financial_value_def float_trunc_fits finite_not_nan_inf split: if_splits)

lemma trunc_of_signed:
  fixes r :: rat
  assumes "0 \<le> r" and "\<lfloor>r\<rfloor> = int a"
  shows "(if 0 \<le> r then \<lfloor>r\<rfloor> else \<lceil>r\<rceil>) = int a"
    and "(if 0 \<le> - r then \<lfloor>- r\<rfloor> else \<lceil>- r\<rceil>) = - int a"
proof -
  show "(if 0 \<le> r then \<lfloor>r\<rfloor> else \<lceil>r\<rceil>) = int a"
    using assms by simp
  show "(if 0 \<le> - r then \<lfloor>- r\<rfloor> else \<lceil>- r\<rceil>) = - int a"
  proof (cases "r = 0")
    case True
    with assms show ?thesis by simp
  next
    case False
    with assms have "\<not> 0 \<le> - r" by simp
    then show ?thesis using assms by (simp add: ceiling_minus)
  qed
qed

lemma float_trunc_value:
  "float_trunc w = (if 0 \<le> float_value w then \<lfloor>float_value w\<rfloor> else \<lceil>float_value w\<rceil>)"
proof -
  define r :: rat where "r = (if 1075 \<le> unbiased w
               then of_nat (significand w) * 2 ^ (unbiased w - 1075)
               else of_nat (significand w) / 2 ^ (1075 - unbiased w))"
  define a :: nat where "a = (if 1075 \<le> unbiased w
               then significand w * 2 ^ (unbiased w - 1075)
               else significand w div 2 ^ (1075 - unbiased w))"
  have r0: "0 \<le> r" by (simp add: r_def)
  have fl: "\<lfloor>r\<rfloor> = int a"
  proof (cases "1075 \<le> unbiased w")
    case True
    then have "r = of_int (int (significand w * 2 ^ (unbiased w - 1075)))"
      by (simp add: r_def)
    then have "\<lfloor>r\<rfloor> = int (significand w * 2 ^ (unbiased w - 1075))"
      by (simp only: floor_of_int)
    with True show ?thesis by (simp add: a_def)
  next
    case False
    then have "r = of_nat (significand w) / of_nat (2 ^ (1075 - unbiased w))"
      by (simp add: r_def)
    then have "\<lfloor>r\<rfloor> = int (significand w div 2 ^ (1075 - unbiased w))"
      by (simp only: floor_divide_of_nat_eq)
    with False show ?thesis by (simp add: a_def)
  qed
  show ?thesis
  proof (cases "sign_bit w")
    case True
    then have "float_value w = - r" "float_trunc w = - int a"
      by (simp_all add: float_value_def float_trunc_def r_def a_def Let_def)
    then show ?thesis using trunc_of_signed(2) [OF r0 fl] by (simp split: if_splits)
  next
    case False
    then have "float_value w = r" "float_trunc w = int a"
      by (simp_all add: float_value_def float_trunc_def r_def a_def Let_def)
    then show ?thesis using trunc_of_signed(1) [OF r0 fl] by (simp split: if_splits)
  qed
qed

lemma float_100: "isfinite 0x4059000000000000 \<and> float_trunc 0x4059000000000000 = 100"
  by (simp add: isfinite_def float_trunc_def unbiased_def significand_def
      biased_exponent_def fraction_def sign_bit_def)

lemma float_minus_2_5:
  "isfinite 0xC004000000000000 \<and> float_trunc 0xC004000000000000 = - 2
     \<and> float_value 0xC004000000000000 = - 5 / 2"
  by (simp add: isfinite_def float_trunc_def float_value_def unbiased_def significand_def
      biased_exponent_def fraction_def sign_bit_def)

lemma float_nan: "isnan 0x7FF8000000000000"
  by (simp add: isnan_def biased_exponent_def fraction_def)

lemma float_inf: "isinf 0x7FF0000000000000"
  by (simp add: isinf_def biased_exponent_def fraction_def)

section \<open>The sanitizer\<close>

text \<open>
  C7, as amended.  \<open>None\<close> gives \<open>None\<close>.  A finite float gives its integer part,
  rounded toward zero (the floor of a value that is not negative, the ceiling of a
  negative one).  A NaN or an infinity gives \<open>None\<close>.  An \<open>int\<close> gives itself when
  it converts to a double, that is when its magnitude is below \<open>2 ^ 1024 - 2 ^ 970\<close>;
  a larger one makes \<open>math.isfinite\<close> raise \<open>OverflowError\<close>, which the function
  does not catch.
\<close>

theorem clean_financial_value_spec:
  "clean_financial_value PyNone = Inr None
   \<and> (isfinite w \<longrightarrow>
        clean_financial_value (PyFloat w) = Inr (Some (float_trunc w))
        \<and> float_trunc w =
            (if 0 \<le> float_value w then \<lfloor>float_value w\<rfloor> else \<lceil>float_value w\<rceil>))
   \<and> (isnan w \<or> isinf w \<longrightarrow> clean_financial_value (PyFloat w) = Inr None)
   \<and> (\<bar>n\<bar> < 2 ^ 1024 - 2 ^ 970 \<longrightarrow> clean_financial_value (PyInt n) = Inr (Some n))
   \<and> (2 ^ 1024 - 2 ^ 970 \<le> \<bar>n\<bar> \<longrightarrow> clean_financial_value (PyInt n) = Inl OverflowError)"
proof -
  have "isfinite w \<longrightarrow>
        clean_financial_value (PyFloat w) = Inr (Some (float_trunc w))
        \<and> float_trunc w =
            (if 0 \<le> float_value w then \<lfloor>float_value w\<rfloor> else \<lceil>float_value w\<rceil>)"
    using float_trunc_value [of w] by (simp add: clean_float_finite)
  moreover have "isnan w \<or> isinf w \<longrightarrow> clean_financial_value (PyFloat w) = Inr None"
    using finite_not_nan_inf [of w] by (auto simp: clean_float_not_finite)
  moreover have "\<bar>n\<bar> < 2 ^ 1024 - 2 ^ 970 \<longrightarrow> clean_financial_value (PyInt n) = Inr (Some n)"
    by (simp add: clean_int int_too_large_for_float_def)
  moreover have "2 ^ 1024 - 2 ^ 970 \<le> \<bar>n\<bar> \<longrightarrow> clean_financial_value (PyInt n) = Inl OverflowError"
    by (simp add: clean_int int_too_large_for_float_def)
  ultimately show ?thesis
    by (simp only: clean_none simp_thms)
qed

theorem clean_financial_value_spec_witness:
  "clean_financial_value (PyFloat 0xC004000000000000) = Inr (Some (- 2))
   \<and> clean_financial_value (PyFloat 0x7FF8000000000000) = Inr None
   \<and> clean_financial_value (PyInt 1000000000) = Inr (Some 1000000000)
   \<and> clean_financial_value (PyInt (- (2 ^ 1024))) = Inl OverflowError"
  using clean_financial_value_spec [of "0xC004000000000000" "1000000000"]
    clean_financial_value_spec [of "0x7FF8000000000000" "- (2 ^ 1024)"]
    float_minus_2_5 float_nan
  by simp

text \<open>
  The integer \<open>2 ^ 1024\<close> is a finite number, and the sanitizer raises on it instead of
  returning it.
\<close>

theorem clean_financial_value_huge_int:
  "clean_financial_value (PyInt (2 ^ 1024)) = Inl OverflowError"
  by (simp add: clean_int int_too_large_for_float_def)

text \<open>
  C9.  Sanitizing the sanitizer's result gives that result again; where the first
  call raises, so does the composition.
\<close>

theorem clean_twice_same: "clean_twice v = clean_financial_value v"
proof (cases "clean_financial_value v")
  case (Inl e)
  then show ?thesis by (simp add: clean_twice_def)
next
  case (Inr r)
  show ?thesis
  proof (cases r)
    case None
    with Inr show ?thesis by (simp add: clean_twice_def clean_none)
  next
    case (Some n)
    with Inr have "\<not> int_too_large_for_float n" by (simp add: clean_result_fits)
    with Inr Some show ?thesis by (simp add: clean_twice_def clean_int)
  qed
qed

section \<open>The price merge\<close>

lemma bind_err_simps [simp]:
  "bind_err (Inl e) f = Inl e"
  "bind_err (Inr a) f = f a"
  by (simp_all add: bind_err_def)

lemma insert_daily_price_frame:
  "stocks (insert_daily_price d sid p) = stocks d"
  "financial_statements (insert_daily_price d sid p) = financial_statements d"
  by (simp_all add: insert_daily_price_def)

lemma add_daily_prices_frame:
  "stocks (add_daily_prices d sid ps) = stocks d \<and>
   financial_statements (add_daily_prices d sid ps) = financial_statements d"
  by (induction ps arbitrary: d) (simp_all add: insert_daily_price_frame)

lemma add_daily_prices_rows:
  "\<exists>new. daily_stock_prices (add_daily_prices d sid ps) = daily_stock_prices d @ new
     \<and> map daily_stock_price_base.truncate new = ps
     \<and> list_all (\<lambda>p. stock_id_p p = sid) new"
proof (induction ps arbitrary: d)
  case Nil
  then show ?case by simp
next
  case (Cons p ps)
  obtain new where new: "daily_stock_prices (add_daily_prices (insert_daily_price d sid p) sid ps)
      = daily_stock_prices (insert_daily_price d sid p) @ new"
     "map daily_stock_price_base.truncate new = ps" "list_all (\<lambda>p. stock_id_p p = sid) new"
    using Cons.IH by blast
  define row where "row = \<lparr>date = date p, open_price = open_price p, high = high p, low = low p,
          close = close p, adj_close = adj_close p, volume = volume p,
          dividends = dividends p, stock_splits = stock_splits p,
          id_p = next_id (map id_p (daily_stock_prices d)), stock_id_p = sid\<rparr>"
  have "daily_stock_prices (insert_daily_price d sid p) = daily_stock_prices d @ [row]"
    by (simp add: insert_daily_price_def row_def)
  moreover have "daily_stock_price_base.truncate row = p"
    by (simp add: row_def daily_stock_price_base.truncate_def)
  moreover have "stock_id_p row = sid" by (simp add: row_def)
  ultimately show ?case using new
    by (intro exI [of _ "row # new"]) simp
qed

lemma sorted_last_Max:
  fixes zs :: "nat list"
  assumes "sorted zs" "zs \<noteq> []"
  shows "last zs = Max (set zs)"
proof -
  obtain ys z where zs: "zs = ys @ [z]"
    using assms(2) by (metis append_butlast_last_id)
  with assms(1) have "\<forall>y\<in>set ys. y \<le> z" by (simp add: sorted_append)
  then have "Max (set zs) = z"
    unfolding zs by (intro Max_eqI) auto
  then show ?thesis by (simp add: zs)
qed

lemma latest_price_date:
  "map_option date (latest_price d sid) = latest_persisted_date d sid"
proof -
  define xs where "xs = filter (\<lambda>p. stock_id_p p = sid) (daily_stock_prices d)"
  show ?thesis
  proof (cases "xs = []")
    case True
    then show ?thesis
      by (simp add: latest_price_def latest_persisted_date_def persisted_dates_def xs_def)
  next
    case False
    define ys where "ys = sort_key date xs"
    have ne: "ys \<noteq> []" using False by (metis length_sort length_0_conv ys_def)
    then obtain bs l where bs: "ys = bs @ [l]"
      by (cases ys rule: rev_cases) auto
    have "latest_price d sid = Some (last ys)"
      by (simp add: latest_price_def xs_def [symmetric] ys_def [symmetric] bs)
    moreover have "date (last ys) = last (map date ys)" using ne by (simp add: last_map)
    moreover have "last (map date ys) = Max (set (map date ys))"
      using ne by (intro sorted_last_Max) (simp_all add: ys_def)
    moreover have "set (map date ys) = set (map date xs)" by (simp add: ys_def)
    ultimately show ?thesis using False
      by (simp add: latest_persisted_date_def persisted_dates_def xs_def [symmetric])
  qed
qed

lemma latest_price_newer:
  "(case latest_price d sid of None \<Rightarrow> False | Some lp \<Rightarrow> index_date row \<le> date lp)
     \<longleftrightarrow> \<not> newer_than (latest_persisted_date d sid) row"
  unfolding latest_price_date [symmetric]
  by (cases "latest_price d sid") (auto simp: newer_than_def)

lemma DailyStockPriceCreate_Inl:
  "DailyStockPriceCreate row = Inl e \<longleftrightarrow> clean_financial_value (Volume row) = Inl e"
  by (cases "clean_financial_value (Volume row)") (simp_all add: DailyStockPriceCreate_def)

lemma DailyStockPriceCreate_date:
  "DailyStockPriceCreate row = Inr p \<Longrightarrow> date p = index_date row"
  by (cases "clean_financial_value (Volume row)") (auto simp: DailyStockPriceCreate_def)

lemma prices_to_add_spec:
  "case prices_to_add (latest_price d sid) hist of
     Inl e \<Rightarrow> \<exists>row \<in> set (filter (newer_than (latest_persisted_date d sid)) hist).
                 DailyStockPriceCreate row = Inl e
   | Inr ps \<Rightarrow> map Inr ps
        = map DailyStockPriceCreate (filter (newer_than (latest_persisted_date d sid)) hist)"
proof (induction hist)
  case Nil
  then show ?case by simp
next
  case (Cons row hist)
  show ?case
  proof (cases "newer_than (latest_persisted_date d sid) row")
    case False
    then show ?thesis using Cons.IH by (simp add: latest_price_newer split: sum.splits)
  next
    case True
    then show ?thesis using Cons.IH
      by (cases "DailyStockPriceCreate row"; cases "prices_to_add (latest_price d sid) hist")
         (auto simp: latest_price_newer)
  qed
qed


lemma persisted_dates_append:
  "daily_stock_prices d' = daily_stock_prices d @ new \<Longrightarrow> list_all (\<lambda>p. stock_id_p p = sid) new
    \<Longrightarrow> persisted_dates d' sid = persisted_dates d sid @ map date new"
  by (simp add: persisted_dates_def list_all_iff)

lemma prices_to_add_all_old:
  "list_all (\<lambda>row. \<not> newer_than (latest_persisted_date d sid) row) hist
    \<Longrightarrow> prices_to_add (latest_price d sid) hist = Inr []"
  by (induction hist) (simp_all add: latest_price_newer)

lemma not_newer_after_merge:
  assumes d': "persisted_dates d' sid = persisted_dates d sid @ map index_date
                  (filter (newer_than (latest_persisted_date d sid)) hist)"
    and row: "row \<in> set hist"
  shows "\<not> newer_than (latest_persisted_date d' sid) row"
proof (cases "newer_than (latest_persisted_date d sid) row")
  case True
  then have "index_date row \<in> set (persisted_dates d' sid)"
    using row by (simp add: d')
  then have "index_date row \<le> Max (set (persisted_dates d' sid))"
    by simp
  moreover have "persisted_dates d' sid \<noteq> []"
    using \<open>index_date row \<in> set (persisted_dates d' sid)\<close> by auto
  ultimately show ?thesis
    by (simp add: newer_than_def latest_persisted_date_def not_less del: Max_less_iff Max_ge_iff)
next
  case False
  then obtain day where day: "latest_persisted_date d sid = Some day" "index_date row \<le> day"
    by (cases "latest_persisted_date d sid") (auto simp: newer_than_def)
  then have ne: "persisted_dates d sid \<noteq> []" and "day = Max (set (persisted_dates d sid))"
    by (auto simp: latest_persisted_date_def split: if_splits)
  then have "day \<in> set (persisted_dates d' sid)"
    using Max_in [of "set (persisted_dates d sid)"] by (simp add: d')
  then have "day \<le> Max (set (persisted_dates d' sid))" "persisted_dates d' sid \<noteq> []"
    by auto
  then show ?thesis using day(2)
    by (simp add: newer_than_def latest_persisted_date_def not_less del: Max_less_iff Max_ge_iff)
qed

subsection \<open>The later fetch of the example\<close>

lemmas float_defs = isfinite_def isnan_def isinf_def float_trunc_def unbiased_def
  significand_def biased_exponent_def fraction_def sign_bit_def

lemma clean_ex2: "clean_financial_value (PyFloat 0x40F86A0000000000) = Inr (Some 100000)"
  by (simp add: clean_financial_value_def float_defs)

lemma latest_ex: "latest_price test_db 1 = Some test_price"
  by (simp add: latest_price_def test_db_def test_price_def)

lemma later_prices_to_add:
  "prices_to_add (Some test_price) later_history
     = Inr [daily_stock_price_base.truncate later_price]"
  by (simp add: later_history_def mock_history_row_def test_price_def later_price_def
      DailyStockPriceCreate_def clean_ex2 daily_stock_price_base.truncate_def)

lemma later_add:
  "add_daily_prices test_db 1 [daily_stock_price_base.truncate later_price]
     = test_db\<lparr>daily_stock_prices := [test_price, later_price]\<rparr>"
  by (simp add: insert_daily_price_def next_id_def test_db_def test_price_def later_price_def
      daily_stock_price_base.truncate_def)

lemma later_merge:
  "merge_prices test_db 1 later_history
     = Inr (test_db\<lparr>daily_stock_prices := [test_price, later_price]\<rparr>, Some 1)"
proof -
  have "later_history \<noteq> []" by (simp add: later_history_def)
  then show ?thesis
    by (simp add: merge_prices_def latest_ex later_prices_to_add later_add
        del: One_nat_def add_daily_prices.simps)
qed



lemma merge_prices_result:
  "case merge_prices d sid hist of
     Inl e \<Rightarrow>
       \<exists>row \<in> set (filter (newer_than (latest_persisted_date d sid)) hist).
          clean_financial_value (Volume row) = Inl e
   | Inr (d', report) \<Rightarrow>
       \<exists>new. daily_stock_prices d' = daily_stock_prices d @ new
         \<and> map (\<lambda>p. Inr (daily_stock_price_base.truncate p)) new
             = map DailyStockPriceCreate (filter (newer_than (latest_persisted_date d sid)) hist)
         \<and> list_all (\<lambda>p. stock_id_p p = sid) new
         \<and> list_all (\<lambda>p. case latest_persisted_date d sid of
                             None \<Rightarrow> True | Some day \<Rightarrow> day < date p) new
         \<and> report = (if hist = [] then None
                      else Some (length (filter (newer_than (latest_persisted_date d sid)) hist)))
         \<and> stocks d' = stocks d
         \<and> financial_statements d' = financial_statements d"
proof (cases "hist = []")
  case True
  then show ?thesis by (simp add: merge_prices_def)
next
  case False
  let ?kept = "filter (newer_than (latest_persisted_date d sid)) hist"
  show ?thesis
  proof (cases "prices_to_add (latest_price d sid) hist")
    case (Inl e)
    then have "\<exists>row \<in> set ?kept. clean_financial_value (Volume row) = Inl e"
      using prices_to_add_spec [of d sid hist] by (simp add: DailyStockPriceCreate_Inl)
    then show ?thesis using False Inl by (simp add: merge_prices_def)
  next
    case (Inr ps)
    then have ps: "map Inr ps = map DailyStockPriceCreate ?kept"
      using prices_to_add_spec [of d sid hist] by simp
    define d' where "d' = (if ps \<noteq> [] then add_daily_prices d sid ps else d)"
    have res: "merge_prices d sid hist = Inr (d', Some (length ps))"
      using False Inr by (simp add: merge_prices_def d'_def)
    have d'_add: "d' = add_daily_prices d sid ps"
      by (simp add: d'_def)
    obtain new where new: "daily_stock_prices d' = daily_stock_prices d @ new"
        "map daily_stock_price_base.truncate new = ps" "list_all (\<lambda>p. stock_id_p p = sid) new"
      using add_daily_prices_rows [of d sid ps] unfolding d'_add by blast
    have len: "length ps = length ?kept"
      using ps by (metis length_map)
    have m: "map (\<lambda>p. Inr (daily_stock_price_base.truncate p)) new = map DailyStockPriceCreate ?kept"
    proof -
      have "map (\<lambda>p. Inr (daily_stock_price_base.truncate p)) new
              = map Inr (map daily_stock_price_base.truncate new)"
        by (simp add: comp_def)
      also have "\<dots> = map Inr ps"
        by (simp only: new(2))
      also have "\<dots> = map DailyStockPriceCreate ?kept"
        by (rule ps)
      finally show ?thesis .
    qed
    have after: "list_all (\<lambda>p. case latest_persisted_date d sid of
                             None \<Rightarrow> True | Some day \<Rightarrow> day < date p) new"
    proof (cases "latest_persisted_date d sid")
      case None
      then show ?thesis by (simp add: list_all_iff)
    next
      case (Some day)
      have "day < date p" if "p \<in> set new" for p
      proof -
        from that obtain i where i: "i < length new" "new ! i = p"
          by (auto simp: in_set_conv_nth)
        have ln: "length new = length ?kept" using m by (metis length_map)
        have "Inr (daily_stock_price_base.truncate p) = DailyStockPriceCreate (?kept ! i)"
          using i ln arg_cong [OF m, of "\<lambda>l. l ! i"] by simp
        then have "date (daily_stock_price_base.truncate p) = index_date (?kept ! i)"
          by (simp add: DailyStockPriceCreate_date)
        moreover have "?kept ! i \<in> set ?kept" using i ln by (intro nth_mem) simp
        then have "newer_than (Some day) (?kept ! i)" using Some by simp
        ultimately show ?thesis
          by (simp add: newer_than_def daily_stock_price_base.truncate_def)
      qed
      then show ?thesis using Some by (simp add: list_all_iff)
    qed
    have "stocks d' = stocks d" "financial_statements d' = financial_statements d"
      using add_daily_prices_frame [of d sid ps] by (simp_all add: d'_add)
    then show ?thesis
      using res new(1,3) m after len False by auto
  qed
qed

subsection \<open>What the merge writes\<close>



subsection \<open>Merging twice\<close>

text \<open>
  C8.  After a merge of a series, a second merge of the same series into the store
  the first one left writes nothing: the store stays as it is and the count is 0
  (for an empty series there is no count).
\<close>

theorem merge_prices_idempotent:
  assumes "merge_prices d sid hist = Inr (d1, report)"
  shows "merge_prices d1 sid hist = Inr (d1, if hist = [] then None else Some 0)"
proof (cases "hist = []")
  case True
  then show ?thesis by (simp add: merge_prices_def)
next
  case False
  let ?kept = "filter (newer_than (latest_persisted_date d sid)) hist"
  from merge_prices_result [of d sid hist] assms
  obtain new where new: "daily_stock_prices d1 = daily_stock_prices d @ new"
      "map (\<lambda>p. Inr (daily_stock_price_base.truncate p)) new = map DailyStockPriceCreate ?kept"
      "list_all (\<lambda>p. stock_id_p p = sid) new"
    by auto
  have "map date new = map index_date ?kept"
  proof (rule nth_equalityI)
    show len: "length (map date new) = length (map index_date ?kept)"
      using new(2) by (metis length_map)
    fix i assume "i < length (map date new)"
    then have i: "i < length new" "i < length ?kept" using len by simp_all
    have "Inr (daily_stock_price_base.truncate (new ! i)) = DailyStockPriceCreate (?kept ! i)"
      using i arg_cong [OF new(2), of "\<lambda>l. l ! i"] by simp
    then have "date (daily_stock_price_base.truncate (new ! i)) = index_date (?kept ! i)"
      by (simp add: DailyStockPriceCreate_date)
    then show "map date new ! i = map index_date ?kept ! i"
      using i by (simp add: daily_stock_price_base.truncate_def)
  qed
  then have "persisted_dates d1 sid = persisted_dates d sid @ map index_date ?kept"
    using persisted_dates_append [OF new(1,3)] by simp
  then have "list_all (\<lambda>row. \<not> newer_than (latest_persisted_date d1 sid) row) hist"
    using not_newer_after_merge [of d1 sid d hist] by (simp add: list_all_iff)
  then have "prices_to_add (latest_price d1 sid) hist = Inr []"
    by (rule prices_to_add_all_old)
  then show ?thesis using False by (simp add: merge_prices_def)
qed


theorem merge_prices_idempotent_witness:
  "merge_prices test_db 1 later_history
     = Inr (test_db\<lparr>daily_stock_prices := [test_price, later_price]\<rparr>, Some 1)
   \<and> merge_prices (test_db\<lparr>daily_stock_prices := [test_price, later_price]\<rparr>) 1 later_history
     = Inr (test_db\<lparr>daily_stock_prices := [test_price, later_price]\<rparr>, Some 0)"
  using merge_prices_idempotent [OF later_merge] later_merge
  by (simp add: later_history_def del: One_nat_def)

section \<open>The statement merge\<close>

lemma bind_err_Inr_iff: "bind_err r f = Inr b \<longleftrightarrow> (\<exists>a. r = Inr a \<and> f a = Inr b)"
  by (cases r) simp_all

lemma bind_err_Inl_iff: "bind_err r f = Inl e \<longleftrightarrow> r = Inl e \<or> (\<exists>a. r = Inr a \<and> f a = Inl e)"
  by (cases r) simp_all

lemma statement_exists_iff:
  assumes "ptype \<noteq> []"
  shows "get_financial_statements d sid (Some ptype) (Some pdate) \<noteq> []
     \<longleftrightarrow> list_ex (\<lambda>f. stock_id_f f = sid \<and> period_type f = ptype \<and> period_end_date f = pdate)
           (financial_statements d)"
proof -
  have "sort_key period_end_date xs = [] \<longleftrightarrow> xs = []" for xs :: "financial_statement list"
    by (metis length_sort length_0_conv)
  then show ?thesis using assms
    by (auto simp: get_financial_statements_def filter_empty_conv list_ex_iff)
qed

lemma statement_data_Inr:
  assumes "statement_data ptype pdate row = Inr st"
  shows "period_type st = ptype \<and> period_end_date st = pdate
    \<and> clean_financial_value (row_get row ''Total Revenue'') = Inr (total_revenue st)
    \<and> clean_financial_value (row_get row ''Cost Of Revenue'') = Inr (cost_of_revenue st)
    \<and> clean_financial_value (row_get row ''Gross Profit'') = Inr (gross_profit st)
    \<and> clean_financial_value (row_get row ''Operating Income'') = Inr (operating_income st)
    \<and> clean_financial_value (row_get row ''Net Income'') = Inr (net_income st)
    \<and> clean_financial_value (row_get row ''Total Assets'') = Inr (total_assets st)
    \<and> clean_financial_value (row_get row ''Total Liabilities'') = Inr (total_liabilities st)
    \<and> clean_financial_value (row_get row ''Stockholders Equity'') = Inr (shareholder_equity st)
    \<and> clean_financial_value (row_get row ''Free Cash Flow'') = Inr (free_cash_flow st)"
  using assms unfolding statement_data_def bind_err_Inr_iff by auto

lemma statement_data_Inl:
  assumes "statement_data ptype pdate row = Inl e"
  shows "list_ex (\<lambda>k. clean_financial_value (row_get row k) = Inl e) metric_labels"
  using assms unfolding statement_data_def bind_err_Inl_iff metric_labels_def 
  by (auto simp del: One_nat_def)

lemma create_financial_statement_rows:
  "\<exists>new. snd (create_financial_statement d sid st)
        = d\<lparr>financial_statements := financial_statements d @ [new]\<rparr>
     \<and> financial_statement_base.truncate new = st \<and> stock_id_f new = sid
     \<and> id_f new = next_id (map id_f (financial_statements d))"
proof -
  define new where "new = fst (create_financial_statement d sid st)"
  have "snd (create_financial_statement d sid st)
        = d\<lparr>financial_statements := financial_statements d @ [new]\<rparr>"
    by (simp add: new_def create_financial_statement_def Let_def)
  moreover have "financial_statement_base.truncate new = st"
    by (simp add: new_def create_financial_statement_def Let_def
        financial_statement_base.truncate_def)
  moreover have "stock_id_f new = sid \<and> id_f new = next_id (map id_f (financial_statements d))"
    by (simp add: new_def create_financial_statement_def Let_def)
  ultimately show ?thesis by blast
qed

lemma save_financials_row_result:
  assumes "ptype \<noteq> []"
  shows "if list_ex (\<lambda>f. stock_id_f f = sid \<and> period_type f = ptype \<and> period_end_date f = pdate)
            (financial_statements d)
     then save_financials_row d sid ptype (pdate, row) = Inr d
     else (case statement_data ptype pdate row of
             Inl e \<Rightarrow> save_financials_row d sid ptype (pdate, row) = Inl e
                 \<and> list_ex (\<lambda>k. clean_financial_value (row_get row k) = Inl e) metric_labels
           | Inr st \<Rightarrow>
               (\<exists>new. save_financials_row d sid ptype (pdate, row)
                        = Inr (d\<lparr>financial_statements := financial_statements d @ [new]\<rparr>)
                  \<and> stock_id_f new = sid \<and> period_type new = ptype
                  \<and> period_end_date new = pdate
                  \<and> Inr (total_revenue new) = clean_financial_value (row_get row ''Total Revenue'')
                  \<and> Inr (cost_of_revenue new) = clean_financial_value (row_get row ''Cost Of Revenue'')
                  \<and> Inr (gross_profit new) = clean_financial_value (row_get row ''Gross Profit'')
                  \<and> Inr (operating_income new) = clean_financial_value (row_get row ''Operating Income'')
                  \<and> Inr (net_income new) = clean_financial_value (row_get row ''Net Income'')
                  \<and> Inr (total_assets new) = clean_financial_value (row_get row ''Total Assets'')
                  \<and> Inr (total_liabilities new) = clean_financial_value (row_get row ''Total Liabilities'')
                  \<and> Inr (shareholder_equity new) = clean_financial_value (row_get row ''Stockholders Equity'')
                  \<and> Inr (free_cash_flow new) = clean_financial_value (row_get row ''Free Cash Flow'')))"
proof (cases "list_ex (\<lambda>f. stock_id_f f = sid \<and> period_type f = ptype \<and> period_end_date f = pdate)
            (financial_statements d)")
  case True
  then show ?thesis
    using statement_exists_iff [OF assms, of d sid pdate] by (simp add: save_financials_row_def)
next
  case False
  then have none: "get_financial_statements d sid (Some ptype) (Some pdate) = []"
    using statement_exists_iff [OF assms, of d sid pdate] by simp
  show ?thesis
  proof (cases "statement_data ptype pdate row")
    case (Inl e)
    then show ?thesis using False none statement_data_Inl [OF Inl]
      by (simp add: save_financials_row_def)
  next
    case (Inr st)
    obtain new where new: "snd (create_financial_statement d sid st)
        = d\<lparr>financial_statements := financial_statements d @ [new]\<rparr>"
      "financial_statement_base.truncate new = st" "stock_id_f new = sid"
      using create_financial_statement_rows [of d sid st] by blast
    have fields: "period_type new = period_type st" "period_end_date new = period_end_date st"
      "total_revenue new = total_revenue st" "cost_of_revenue new = cost_of_revenue st"
      "gross_profit new = gross_profit st" "operating_income new = operating_income st"
      "net_income new = net_income st" "total_assets new = total_assets st"
      "total_liabilities new = total_liabilities st"
      "shareholder_equity new = shareholder_equity st" "free_cash_flow new = free_cash_flow st"
      using new(2) by (auto simp: financial_statement_base.truncate_def)
    have "save_financials_row d sid ptype (pdate, row)
            = Inr (d\<lparr>financial_statements := financial_statements d @ [new]\<rparr>)"
      using none Inr new(1) by (simp add: save_financials_row_def)
    then show ?thesis
      using False Inr statement_data_Inr [OF Inr] new(3) fields
      by (simp only: if_False sum.case) (intro exI [of _ new], simp)
  qed
qed

subsection \<open>The statement rows of the example\<close>

lemma clean_small_int:
  "\<bar>n\<bar> < 2 ^ 1024 - 2 ^ 970 \<Longrightarrow> clean_financial_value (PyInt n) = Inr (Some n)"
  by (simp add: clean_financial_value_def int_too_large_for_float_def)




subsection \<open>One fetched row\<close>



section \<open>The metadata upsert\<close>

lemma fold_max_ge: "a \<le> fold max xs (a::nat)"
  by (induction xs arbitrary: a) (auto intro: order_trans [OF max.cobounded2])

lemma fold_max_mem: "x \<in> set xs \<Longrightarrow> x \<le> fold max xs (a::nat)"
proof (induction xs arbitrary: a)
  case Nil
  then show ?case by simp
next
  case (Cons y ys)
  show ?case
  proof (cases "x = y")
    case True
    have "max y a \<le> fold max ys (max y a)" by (rule fold_max_ge)
    then show ?thesis using True by simp
  next
    case False
    then show ?thesis using Cons by simp
  qed
qed

lemma next_id_fresh: "next_id ids \<notin> set ids"
proof
  assume "next_id ids \<in> set ids"
  then have "next_id ids \<le> fold max ids 0" by (rule fold_max_mem)
  then show False by (simp add: next_id_def)
qed

lemma find_replaced:
  assumes "find (\<lambda>r. code r = c) xs = Some s" and "code s' = c"
  shows "find (\<lambda>r. code r = c) (map (\<lambda>r. if id_s r = id_s s then s' else r) xs) = Some s'"
  using assms
proof (induction xs)
  case Nil
  then show ?case by simp
next
  case (Cons x xs)
  then show ?case by (cases "code x = c") auto
qed

lemma find_appended:
  assumes "find P xs = None" and "P x"
  shows "find P (xs @ [x]) = Some x"
  using assms by (induction xs) (auto split: if_splits)

lemma ids_replaced:
  "id_s s' = id_s s \<Longrightarrow> map id_s (map (\<lambda>r. if id_s r = id_s s then s' else r) xs) = map id_s xs"
  by (induction xs) auto

lemma upsert_existing:
  assumes "get_stock_by_code d (code sd) = Some s" and "name sd \<noteq> None"
  shows "\<exists>s'. upsert_stock d sd
                = Inr (s', d\<lparr>stocks := map (\<lambda>r. if id_s r = id_s s then s' else r) (stocks d)\<rparr>)
           \<and> stock_base.truncate s' = sd \<and> id_s s' = id_s s"
  using assms by (simp add: upsert_stock_def Let_def stock_base.truncate_def)

lemma upsert_new:
  assumes "get_stock_by_code d (code sd) = None" and "name sd \<noteq> None"
  shows "\<exists>s'. upsert_stock d sd = Inr (s', d\<lparr>stocks := stocks d @ [s']\<rparr>)
           \<and> stock_base.truncate s' = sd \<and> id_s s' = next_id (map id_s (stocks d))"
  using assms
  by (simp add: upsert_stock_def StockCreate_def create_stock_def get_stock_by_code_def
      Let_def stock_base.truncate_def)

lemma upsert_stock_frame_result:
  assumes "upsert_stock d sd = Inr (s', d')"
  shows "daily_stock_prices d' = daily_stock_prices d
       \<and> financial_statements d' = financial_statements d"
proof (cases "get_stock_by_code d (code sd)")
  case None
  with assms show ?thesis
    by (auto simp: upsert_stock_def StockCreate_def create_stock_def Let_def
        split: if_splits)
next
  case (Some s)
  with assms show ?thesis
    by (auto simp: upsert_stock_def Let_def split: if_splits)
qed

lemma no_history_of_fresh:
  assumes "foreign_keys_ok d" and "i \<notin> set (map id_s (stocks d))"
    and "daily_stock_prices d' = daily_stock_prices d"
    and "financial_statements d' = financial_statements d"
  shows "get_daily_prices d' i None None = [] \<and> get_financial_statements d' i None None = []"
proof -
  have "filter (\<lambda>p. stock_id_p p = i) (daily_stock_prices d) = []"
    using assms(1,2) by (auto simp: foreign_keys_ok_def list_all_iff filter_empty_conv)
  moreover have "filter (\<lambda>f. stock_id_f f = i) (financial_statements d) = []"
    using assms(1,2) by (auto simp: foreign_keys_ok_def list_all_iff filter_empty_conv)
  ultimately show ?thesis
    by (simp add: get_daily_prices_def get_financial_statements_def assms(3,4))
qed

lemma upsert_stock_result:
  assumes "name sd \<noteq> None"
  shows "\<exists>s' d'. upsert_stock d sd = Inr (s', d')
           \<and> stock_base.truncate s' = sd
           \<and> get_stock_by_code d' (code sd) = Some s'
           \<and> (case get_stock_by_code d (code sd) of
                Some s \<Rightarrow> id_s s' = id_s s \<and> map id_s (stocks d') = map id_s (stocks d)
              | None \<Rightarrow> stocks d' = stocks d @ [s']
                  \<and> id_s s' \<notin> set (map id_s (stocks d))
                  \<and> (foreign_keys_ok d \<longrightarrow>
                        get_daily_prices d' (id_s s') None None = []
                        \<and> get_financial_statements d' (id_s s') None None = []))"
proof (cases "get_stock_by_code d (code sd)")
  case (Some s)
  from upsert_existing [OF Some assms] obtain s' where s':
    "upsert_stock d sd
       = Inr (s', d\<lparr>stocks := map (\<lambda>r. if id_s r = id_s s then s' else r) (stocks d)\<rparr>)"
    "stock_base.truncate s' = sd" "id_s s' = id_s s"
    by blast
  have "code s' = code sd"
    using s'(2) by (auto simp: stock_base.truncate_def)
  then have "get_stock_by_code
      (d\<lparr>stocks := map (\<lambda>r. if id_s r = id_s s then s' else r) (stocks d)\<rparr>) (code sd) = Some s'"
    using Some by (simp add: get_stock_by_code_def find_replaced)
  then show ?thesis
    using s' Some by (simp add: ids_replaced)
next
  case None
  from upsert_new [OF None assms] obtain s' where s':
    "upsert_stock d sd = Inr (s', d\<lparr>stocks := stocks d @ [s']\<rparr>)"
    "stock_base.truncate s' = sd" "id_s s' = next_id (map id_s (stocks d))"
    by blast
  have "code s' = code sd"
    using s'(2) by (auto simp: stock_base.truncate_def)
  then have found: "get_stock_by_code (d\<lparr>stocks := stocks d @ [s']\<rparr>) (code sd) = Some s'"
    using None by (simp add: get_stock_by_code_def find_appended)
  have fresh: "id_s s' \<notin> set (map id_s (stocks d))"
    unfolding s'(3) by (rule next_id_fresh)
  have "foreign_keys_ok d \<longrightarrow>
          get_daily_prices (d\<lparr>stocks := stocks d @ [s']\<rparr>) (id_s s') None None = []
          \<and> get_financial_statements (d\<lparr>stocks := stocks d @ [s']\<rparr>) (id_s s') None None = []"
    using no_history_of_fresh [OF _ fresh] by simp
  then show ?thesis
    using s'(1,2) found fresh None by simp
qed

subsection \<open>The upserts of the example\<close>


lemma second_upsert:
  "upsert_stock test_db second_fetch = Inr (second_stock, test_db\<lparr>stocks := [second_stock]\<rparr>)"
  by (simp add: upsert_stock_def get_stock_by_code_def test_db_def test_stock_def
      second_fetch_def second_stock_def Let_def)

subsection \<open>Last write wins\<close>



subsection \<open>What the upsert leaves alone\<close>

text \<open>
  C10.  An upsert that returns leaves the price table and the statement table as they
  were, so the prices and statements of every security read as before; an existing
  security keeps its id and the ids of the stocks are unchanged (a new security is
  appended after the existing ones).
\<close>

theorem upsert_stock_frame:
  assumes "upsert_stock d sd = Inr (s', d')"
  shows "daily_stock_prices d' = daily_stock_prices d
       \<and> financial_statements d' = financial_statements d
       \<and> get_daily_prices d' i start_date end_date = get_daily_prices d i start_date end_date
       \<and> get_financial_statements d' i ptype pdate = get_financial_statements d i ptype pdate
       \<and> (case get_stock_by_code d (code sd) of
            Some s \<Rightarrow> id_s s' = id_s s \<and> map id_s (stocks d') = map id_s (stocks d)
          | None \<Rightarrow> stocks d' = stocks d @ [s'])"
proof -
  have frame: "daily_stock_prices d' = daily_stock_prices d"
      "financial_statements d' = financial_statements d"
    using upsert_stock_frame_result [OF assms] by simp_all
  have nm: "name sd \<noteq> None"
    using assms
    by (auto simp: upsert_stock_def StockCreate_def Let_def split: option.splits if_splits)
  have "case get_stock_by_code d (code sd) of
            Some s \<Rightarrow> id_s s' = id_s s \<and> map id_s (stocks d') = map id_s (stocks d)
          | None \<Rightarrow> stocks d' = stocks d @ [s']"
    using upsert_stock_result [OF nm, of d] assms by (auto split: option.splits)
  then show ?thesis
    using frame by (simp add: get_daily_prices_def get_financial_statements_def)
qed

theorem upsert_stock_frame_witness:
  "daily_stock_prices (test_db\<lparr>stocks := [second_stock]\<rparr>) = [test_price]
   \<and> financial_statements (test_db\<lparr>stocks := [second_stock]\<rparr>) = [test_annual, test_quarterly]
   \<and> get_daily_prices (test_db\<lparr>stocks := [second_stock]\<rparr>) 1 None None
       = get_daily_prices test_db 1 None None
   \<and> id_s second_stock = 1"
  using upsert_stock_frame [OF second_upsert, of 1 None None None None]
  by (simp add: test_db_def second_stock_def)

section \<open>Ingestion of one symbol\<close>

subsection \<open>The ingestion of the example\<close>










subsection \<open>An unknown symbol\<close>

text \<open>
  C6.  When the provider's \<open>info\<close> is empty or has no \<open>symbol\<close> key, the ingestion
  returns \<open>None\<close> (which the route turns into a 404) and the store is the store it
  was given.
\<close>

theorem unknown_symbol_no_writes:
  assumes "info (yf ticker_symbol) = Inr None
     \<or> (\<exists>i. info (yf ticker_symbol) = Inr (Some i) \<and> info_symbol i = None)"
  shows "fetch_and_save_yfinance_data yf d ticker_symbol = (Inr None, d)"
  using assms by (auto simp: fetch_and_save_yfinance_data_def Let_def)

theorem unknown_symbol_no_writes_witness:
  "fetch_and_save_yfinance_data mock_yf test_db ''B'' = (Inr None, test_db)"
proof -
  have "info (mock_yf ''B'') = Inr None"
    by (simp add: mock_yf_def unknown_ticker_def)
  then show ?thesis
    using unknown_symbol_no_writes [of mock_yf "''B''" test_db] by simp
qed

section \<open>The bulk job\<close>






section \<open>The key invariants\<close>

text \<open>
  The statement merge keeps the statement keys unique: it inserts a row only under a
  key the store does not have, the rows inserted earlier in the same loop included.
\<close>

lemma statement_keys_unique_append:
  assumes "statement_keys_unique d"
    and "\<not> list_ex (\<lambda>f. stock_id_f f = stock_id_f new \<and> period_type f = period_type new
               \<and> period_end_date f = period_end_date new) (financial_statements d)"
  shows "statement_keys_unique (d\<lparr>financial_statements := financial_statements d @ [new]\<rparr>)"
  using assms by (auto simp: statement_keys_unique_def list_ex_iff)

lemma save_financials_row_keeps_unique:
  assumes "ptype \<noteq> []" and "statement_keys_unique d"
    and "save_financials_row d sid ptype r = Inr d'"
  shows "statement_keys_unique d'"
proof (cases "list_ex (\<lambda>f. stock_id_f f = sid \<and> period_type f = ptype
                \<and> period_end_date f = fst r) (financial_statements d)")
  case True
  then show ?thesis
    using save_financials_row_result [OF assms(1), of sid "fst r" d "snd r"] assms(2,3) by simp
next
  case False
  show ?thesis
  proof (cases "statement_data ptype (fst r) (snd r)")
    case (Inl e)
    then show ?thesis
      using save_financials_row_result [OF assms(1), of sid "fst r" d "snd r"] False assms(3)
      by simp
  next
    case (Inr st)
    then obtain new where new:
      "d' = d\<lparr>financial_statements := financial_statements d @ [new]\<rparr>"
      "stock_id_f new = sid" "period_type new = ptype" "period_end_date new = fst r"
      using save_financials_row_result [OF assms(1), of sid "fst r" d "snd r"] False assms(3)
      by auto
    show ?thesis
      unfolding new(1) using assms(2) False new(2-4)
      by (intro statement_keys_unique_append) simp_all
  qed
qed

lemma save_financials_rows_keeps_unique:
  assumes "ptype \<noteq> []" and "statement_keys_unique d"
  shows "statement_keys_unique (snd (save_financials_rows d sid ptype rows))"
  using assms(2)
proof (induction rows arbitrary: d)
  case Nil
  then show ?case by simp
next
  case (Cons r rows)
  show ?case
  proof (cases "save_financials_row d sid ptype r")
    case (Inl e)
    then show ?thesis using Cons.prems by simp
  next
    case (Inr d')
    then have "statement_keys_unique d'"
      using save_financials_row_keeps_unique [OF assms(1) Cons.prems] by simp
    then show ?thesis using Inr Cons.IH by simp
  qed
qed

text \<open>
  The price merge compares with the persisted dates only: a fetched series with two
  rows of one date, both after the latest persisted date, is written whole.
\<close>

lemma duplicate_dates_break_price_key:
  "merge_prices (empty_db\<lparr>stocks := [test_stock]\<rparr>) 1 [mock_history_row, mock_history_row]
     = Inr (empty_db\<lparr>stocks := [test_stock],
                     daily_stock_prices := [test_price, test_price\<lparr>id_p := 2\<rparr>]\<rparr>, Some 2)
   \<and> \<not> price_keys_unique (empty_db\<lparr>stocks := [test_stock],
                     daily_stock_prices := [test_price, test_price\<lparr>id_p := 2\<rparr>]\<rparr>)"
  by (simp add: merge_prices_def latest_price_def empty_db_def DailyStockPriceCreate_def
      mock_history_row_def clean_small_int insert_daily_price_def next_id_def test_price_def
      price_keys_unique_def)

lemma fin_first:
  "create_financial_statement_for_stock fin_db ''FIN'' fs_payload
     = (Inr (fin_statement 1), fin_db\<lparr>financial_statements := [fin_statement 1]\<rparr>)"
  by (simp add: create_financial_statement_for_stock_def get_stock_by_code_def fin_db_def
      fin_stock_def create_financial_statement_def next_id_def fs_payload_def
      fin_statement_def Let_def)

lemma fin_second:
  "create_financial_statement_for_stock (fin_db\<lparr>financial_statements := [fin_statement 1]\<rparr>)
       ''FIN'' fs_payload
     = (Inr (fin_statement 2),
        fin_db\<lparr>financial_statements := [fin_statement 1, fin_statement 2]\<rparr>)"
  by (simp add: create_financial_statement_for_stock_def get_stock_by_code_def fin_db_def
      fin_stock_def create_financial_statement_def next_id_def fs_payload_def
      fin_statement_def Let_def)

text \<open>
  C2.  The route \<open>POST /stocks/{code}/financials/\<close> inserts without looking for a
  statement of the same key.  On the store of the test suite, with the stock \<open>FIN\<close>
  and no statement, the keys are unique at first and after one post of the payload;
  after the second post of the same payload there are two statements of the key
  (\<open>FIN\<close>, annual, 2023-12-31).
\<close>

theorem repeated_post_breaks_statement_key:
  "statement_keys_unique fin_db
   \<and> statement_keys_unique (snd (create_financial_statement_for_stock fin_db ''FIN'' fs_payload))
   \<and> \<not> statement_keys_unique
        (snd (create_financial_statement_for_stock
               (snd (create_financial_statement_for_stock fin_db ''FIN'' fs_payload))
               ''FIN'' fs_payload))"
proof -
  have first: "snd (create_financial_statement_for_stock fin_db ''FIN'' fs_payload)
      = fin_db\<lparr>financial_statements := [fin_statement 1]\<rparr>"
    by (simp add: fin_first del: One_nat_def)
  have second: "snd (create_financial_statement_for_stock
        (fin_db\<lparr>financial_statements := [fin_statement 1]\<rparr>) ''FIN'' fs_payload)
      = fin_db\<lparr>financial_statements := [fin_statement 1, fin_statement 2]\<rparr>"
    by (simp add: fin_second del: One_nat_def)
  show ?thesis
    unfolding first second
    by (simp add: statement_keys_unique_def fin_db_def fin_statement_def)
qed

end
